theory Spec2Isabelle
  imports Complex_Main
begin

section \<open>Data model of \<^verbatim>\<open>spy_nav_tracker.py\<close>\<close>

text \<open>
  A \<^verbatim>\<open>datetime\<close> has microsecond resolution; it is modelled as the integer number of
  microseconds since a fixed epoch, and a \<^verbatim>\<open>timedelta\<close> as an integer number of
  microseconds. Prices are Python floats in the source; they are modelled as exact reals, so
  every statement below is about the arithmetic the code writes down, without the rounding
  of IEEE doubles and without NaN or infinite prices.
\<close>

type_synonym datetime = int

text \<open>One row of \<^verbatim>\<open>st.session_state.data\<close> (columns of the DataFrame of line 27).\<close>

record sample =
  timestamp :: datetime
  spy_price :: real
  nav_value :: real
  difference :: real

text \<open>\<^verbatim>\<open>st.session_state\<close>: the rolling buffer and the last-update timestamp.\<close>

record session_state =
  data :: "sample list"
  last_update :: datetime

text \<open>
  What one call of \<^verbatim>\<open>yf.download(symbol, period="1d", interval="1m")\<close> does: it returns a
  frame, of which only the \<^verbatim>\<open>Close\<close> column is read (possibly with no rows), or it raises
  an exception with a message.
\<close>

datatype download = Frame "real list" | Raised string

text \<open>
  The effects a tick has outside the session state: a call of \<^verbatim>\<open>yf.download\<close> for a
  symbol, and a message shown to the user with \<^verbatim>\<open>st.error\<close>.
\<close>

datatype event = Download string | St_error string

text \<open>
  Everything a tick reads from outside: the clock (\<^verbatim>\<open>datetime.now()\<close> at line 79), the
  outcome of the two downloads and the draw of \<^verbatim>\<open>np.random.normal(0, 0.001)\<close>.
\<close>

record env =
  now :: datetime
  spy_feed :: download
  gspc_feed :: download
  noise :: real

section \<open>Price Fetcher and NAV Approximator\<close>

text \<open>\<^verbatim>\<open>fetch_spy_price\<close> (lines 32-43): \<^verbatim>\<open>None\<close> on an empty frame or an exception.\<close>

definition fetch_spy_price :: "download \<Rightarrow> real option \<times> event list" where
  "fetch_spy_price d =
     (case d of
        Frame closes \<Rightarrow>
          if closes \<noteq> [] then (Some (last closes), [Download ''SPY''])
          else (None, [Download ''SPY'', St_error ''Failed to retrieve SPY price data''])
      | Raised e \<Rightarrow>
          (None, [Download ''SPY'', St_error (''Error fetching SPY price: '' @ e)]))"

definition nav_scaling_factor :: real where
  "nav_scaling_factor = 1 / 10"

text \<open>\<^verbatim>\<open>calculate_approx_nav\<close> (lines 45-75); the noise drawn at line 66 is a parameter.\<close>

definition calculate_approx_nav :: "download \<Rightarrow> real \<Rightarrow> real option \<times> event list" where
  "calculate_approx_nav d nz =
     (case d of
        Frame closes \<Rightarrow>
          if closes \<noteq> [] then
            (let sp500_value = last closes;
                 approx_nav = sp500_value * nav_scaling_factor;
                 approx_nav' = approx_nav * (1 + nz)
             in (Some approx_nav', [Download ''^GSPC'']))
          else (None, [Download ''^GSPC'', St_error ''Failed to retrieve S&P 500 index data''])
      | Raised e \<Rightarrow>
          (None, [Download ''^GSPC'', St_error (''Error calculating approximate NAV: '' @ e)]))"

section \<open>Sample Aggregator\<close>

text \<open>\<^verbatim>\<open>df.iloc[-n:]\<close>: the last \<open>n\<close> rows, all of them when there are fewer.\<close>

definition iloc_last :: "nat \<Rightarrow> 'a list \<Rightarrow> 'a list" where
  "iloc_last n xs = drop (length xs - n) xs"

text \<open>
  The debounce of line 84 compares \<^verbatim>\<open>total_seconds()\<close> with \<^verbatim>\<open>0.9\<close>. \<^verbatim>\<open>total_seconds\<close> is
  the correctly rounded quotient of the microsecond count by \<open>10\<^sup>6\<close>, and the literal
  \<^verbatim>\<open>0.9\<close> is the double nearest to \<open>900000 / 10\<^sup>6\<close>, so the comparison is the comparison
  of the microsecond count with \<open>900000\<close>.
\<close>

definition debounce_us :: int where
  "debounce_us = 900000"

definition new_row :: "datetime \<Rightarrow> real \<Rightarrow> real \<Rightarrow> sample" where
  "new_row current_time p n =
     \<lparr>timestamp = current_time, spy_price = p, nav_value = n, difference = p - n\<rparr>"

text \<open>
  \<^verbatim>\<open>update_data\<close> (lines 77-111). The result is the returned flag, the session state after
  the call, and the effects of the call in order.
\<close>

definition update_data :: "env \<Rightarrow> session_state \<Rightarrow> (bool \<times> session_state) \<times> event list" where
  "update_data e st =
     (let current_time = now e;
          time_diff = current_time - last_update st
      in if time_diff < debounce_us then ((False, st), [])
         else
           (let (spy_price, ev1) = fetch_spy_price (spy_feed e);
                (nav_value, ev2) = calculate_approx_nav (gspc_feed e) (noise e)
            in case spy_price of
                 None \<Rightarrow> ((False, st), ev1 @ ev2)
               | Some p \<Rightarrow>
                   (case nav_value of
                      None \<Rightarrow> ((False, st), ev1 @ ev2)
                    | Some n \<Rightarrow>
                        (let new_data = [new_row current_time p n];
                             d1 = data st @ new_data;
                             d2 = (if length d1 > 3600 then iloc_last 3600 d1 else d1)
                         in ((True, \<lparr>data = d2, last_update = current_time\<rparr>), ev1 @ ev2)))))"

text \<open>The flag, the state and the effects of a tick.\<close>

definition tick_flag :: "env \<Rightarrow> session_state \<Rightarrow> bool" where
  "tick_flag e st = fst (fst (update_data e st))"

definition tick_state :: "env \<Rightarrow> session_state \<Rightarrow> session_state" where
  "tick_state e st = snd (fst (update_data e st))"

definition tick_events :: "env \<Rightarrow> session_state \<Rightarrow> event list" where
  "tick_events e st = snd (update_data e st)"

text \<open>Session start (lines 26-30) and the Force Refresh button (lines 136-138).\<close>

definition two_minutes :: int where
  "two_minutes = 120000000"

definition init_session :: "datetime \<Rightarrow> session_state" where
  "init_session t = \<lparr>data = [], last_update = t - two_minutes\<rparr>"

definition force_refresh :: "datetime \<Rightarrow> session_state \<Rightarrow> session_state" where
  "force_refresh t st = st\<lparr>last_update := t - two_minutes\<rparr>"

text \<open>The session states the script can be in: only these three places write the state.\<close>

inductive reachable :: "session_state \<Rightarrow> bool" where
  start: "reachable (init_session t)"
| tick: "reachable st \<Longrightarrow> reachable (tick_state e st)"
| refresh: "reachable st \<Longrightarrow> reachable (force_refresh t st)"

section \<open>Presentation Layer\<close>

subsection \<open>Formatting of numbers\<close>

text \<open>
  Python's \<^verbatim>\<open>f"{x:.4f}"\<close> and \<^verbatim>\<open>f"{x:.2f}"\<close>: the value rounded to the given number of
  decimals, ties to even, with a minus sign for a negative value (also when it rounds to
  zero) and no sign otherwise.
\<close>

definition round_half_even :: "real \<Rightarrow> int" where
  "round_half_even y =
     (let f = \<lfloor>y\<rfloor>; r = y - of_int f
      in if r < 1 / 2 then f else if 1 / 2 < r then f + 1 else if even f then f else f + 1)"

definition digit_char :: "nat \<Rightarrow> char" where
  "digit_char n = ''0123456789'' ! (n mod 10)"

fun str_nat :: "nat \<Rightarrow> string" where
  "str_nat n = (if n < 10 then [digit_char n] else str_nat (n div 10) @ [digit_char (n mod 10)])"

declare str_nat.simps [simp del]

definition zfill :: "nat \<Rightarrow> string \<Rightarrow> string" where
  "zfill w s = replicate (w - length s) CHR ''0'' @ s"

definition fmt_f :: "nat \<Rightarrow> real \<Rightarrow> string" where
  "fmt_f prec x =
     (let m = nat (round_half_even (\<bar>x\<bar> * 10 ^ prec));
          ip = m div 10 ^ prec;
          fp = m mod 10 ^ prec
      in (if x < 0 then ''-'' else []) @ str_nat ip @
         (if prec = 0 then [] else ''.'' @ zfill prec (str_nat fp)))"

text \<open>
  A derived column can hold values that are not finite: \<^verbatim>\<open>shift\<close> introduces NaN, and a
  division by a zero price gives an infinity or NaN in pandas and numpy (never an
  exception). A column that is NaN only through \<^verbatim>\<open>shift\<close> is a \<open>real option\<close>.
\<close>

datatype fl = Fin real | PInf | NInf | NaN

definition fl_div :: "real option \<Rightarrow> real option \<Rightarrow> fl" where
  "fl_div a b =
     (case a of
        None \<Rightarrow> NaN
      | Some x \<Rightarrow>
          (case b of
             None \<Rightarrow> NaN
           | Some y \<Rightarrow>
               if y \<noteq> 0 then Fin (x / y)
               else if 0 < x then PInf else if x < 0 then NInf else NaN))"

text \<open>Multiplication by a positive finite constant.\<close>

fun fl_scale :: "fl \<Rightarrow> real \<Rightarrow> fl" where
  "fl_scale (Fin x) c = Fin (x * c)"
| "fl_scale PInf c = PInf"
| "fl_scale NInf c = NInf"
| "fl_scale NaN c = NaN"

fun fmt_fl :: "nat \<Rightarrow> fl \<Rightarrow> string" where
  "fmt_fl prec (Fin x) = fmt_f prec x"
| "fmt_fl prec PInf = ''inf''"
| "fmt_fl prec NInf = ''-inf''"
| "fmt_fl prec NaN = ''nan''"

subsection \<open>The recent-history table\<close>

text \<open>
  \<^verbatim>\<open>sort_values('timestamp', ascending=False)\<close>. The order of rows with equal timestamps,
  which the default sort of pandas leaves open, is kept here.
\<close>

definition sort_values_desc :: "sample list \<Rightarrow> sample list" where
  "sort_values_desc xs = sort_key (\<lambda>s. - timestamp s) xs"

text \<open>\<^verbatim>\<open>Series.shift(-1)\<close>: every row gets the value of the row below it, the last row NaN.\<close>

definition shift_m1 :: "'a list \<Rightarrow> 'a option list" where
  "shift_m1 xs = (case xs of [] \<Rightarrow> [] | _ # t \<Rightarrow> map Some t @ [None])"

text \<open>A row of \<^verbatim>\<open>table_data\<close> after lines 252-257.\<close>

record table_row = sample +
  prev_spy_price :: "real option"
  price_change :: "real option"
  price_change_pct :: fl

definition mk_table_row :: "sample \<Rightarrow> real option \<Rightarrow> table_row" where
  "mk_table_row s prev =
     (let change = map_option (\<lambda>p. spy_price s - p) prev
      in \<lparr>timestamp = timestamp s, spy_price = spy_price s, nav_value = nav_value s,
          difference = difference s,
          prev_spy_price = prev,
          price_change = change,
          price_change_pct = fl_scale (fl_div change prev) 100\<rparr>)"

definition table_data :: "sample list \<Rightarrow> table_row list" where
  "table_data buf =
     (let rows = take 15 (sort_values_desc buf)
      in map2 mk_table_row rows (shift_m1 (map spy_price rows)))"

text \<open>A row of \<^verbatim>\<open>display_table\<close> after lines 263-283, under the displayed column names.\<close>

record display_row =
  Timestamp :: datetime
  SPY_Price :: string
  Previous_Price :: string
  Change :: string
  Change_pct :: string
  NAV_Value :: string
  Difference :: string

definition price_change_pct_fmt :: "fl \<Rightarrow> string" where
  "price_change_pct_fmt x = (if x \<noteq> NaN then fmt_fl 4 x @ ''%'' else [])"

definition mk_display_row :: "table_row \<Rightarrow> display_row" where
  "mk_display_row r =
     \<lparr>Timestamp = timestamp r,
      SPY_Price = ''$'' @ fmt_f 2 (spy_price r),
      Previous_Price = (case prev_spy_price r of Some x \<Rightarrow> ''$'' @ fmt_f 2 x | None \<Rightarrow> []),
      Change = (case price_change r of Some x \<Rightarrow> ''$'' @ fmt_f 4 x | None \<Rightarrow> []),
      Change_pct = price_change_pct_fmt (price_change_pct r),
      NAV_Value = ''$'' @ fmt_f 2 (nav_value r),
      Difference = ''$'' @ fmt_f 4 (difference r)\<rparr>"

text \<open>\<^verbatim>\<open>style_df\<close> (lines 290-313): the styles of the three coloured columns of a row.\<close>

definition green :: string where
  "green = ''color: green; background-color: rgba(75, 192, 192, 0.2)''"

definition red :: string where
  "red = ''color: red; background-color: rgba(255, 99, 132, 0.2)''"

definition style_real :: "real \<Rightarrow> string" where
  "style_real x = (if 0 < x then green else if x < 0 then red else [])"

fun style_fl :: "fl \<Rightarrow> string" where
  "style_fl (Fin x) = style_real x"
| "style_fl PInf = green"
| "style_fl NInf = red"
| "style_fl NaN = []"

record row_style =
  Change_style :: string
  Change_pct_style :: string
  Difference_style :: string

definition style_row :: "table_row \<Rightarrow> row_style" where
  "style_row r =
     \<lparr>Change_style = (case price_change r of Some x \<Rightarrow> style_real x | None \<Rightarrow> []),
      Change_pct_style = style_fl (price_change_pct r),
      Difference_style = style_real (difference r)\<rparr>"

subsection \<open>One render of the main panel\<close>

record trace =
  trace_name :: string
  trace_x :: "datetime list"
  trace_y :: "real list"

text \<open>
  The elements the main panel shows, in order of the calls that make them. The caption
  holds the timestamp whose \<^verbatim>\<open>strftime\<close> text it shows; the subheader is written without
  its pictograph.
\<close>

datatype widget =
    Metric string string "string option"
  | Plotly_chart "trace list"
  | Subheader string
  | Markdown string
  | Dataframe "display_row list" "row_style list"
  | Caption datetime
  | Raw_data_expander "sample list"
  | Info string

definition metrics :: "sample \<Rightarrow> widget list" where
  "metrics latest_data =
     [Metric ''SPY Price'' (''$'' @ fmt_f 2 (spy_price latest_data)) None,
      Metric ''Estimated NAV'' (''$'' @ fmt_f 2 (nav_value latest_data)) None,
      Metric ''Difference (Price - NAV)'' (''$'' @ fmt_f 4 (difference latest_data))
        (Some (fmt_fl 4 (fl_scale (fl_div (Some (difference latest_data))
                                          (Some (nav_value latest_data))) 100) @ ''%''))]"

definition chart :: "sample list \<Rightarrow> widget" where
  "chart buf =
     Plotly_chart
       [\<lparr>trace_name = ''SPY Price'', trace_x = map timestamp buf, trace_y = map spy_price buf\<rparr>,
        \<lparr>trace_name = ''NAV Value'', trace_x = map timestamp buf, trace_y = map nav_value buf\<rparr>,
        \<lparr>trace_name = ''Difference'', trace_x = map timestamp buf, trace_y = map difference buf\<rparr>]"

definition table_widgets :: "sample list \<Rightarrow> widget list" where
  "table_widgets buf =
     (if length buf > 1 then
        (let rows = table_data buf
         in [Dataframe (map mk_display_row rows) (map style_row rows)])
      else [])"

text \<open>Lines 146-338 of the script, on the session state left by \<^verbatim>\<open>update_data\<close>.\<close>

definition render :: "session_state \<Rightarrow> widget list" where
  "render st =
     (if data st \<noteq> [] then
        metrics (last (data st)) @
        [chart (data st),
         Subheader ''Real-Time Price Tracking'',
         Markdown ''Track the most recent price changes and NAV differences in real-time:''] @
        table_widgets (data st) @
        [Caption (last_update st),
         Raw_data_expander (data st)]
      else [Info ''Waiting for data... First update should appear shortly.''])"

subsection \<open>Derived difference\<close>

text \<open>A sample whose difference column is what its two other value columns give.\<close>

definition derived :: "sample \<Rightarrow> bool" where
  "derived s \<longleftrightarrow> difference s = spy_price s - nav_value s"

section \<open>The ticks of the Sample Aggregator\<close>

text \<open>The three ways a call of \<^verbatim>\<open>update_data\<close> can go.\<close>

lemma update_data_debounced:
  "now e - last_update st < debounce_us \<Longrightarrow> update_data e st = ((False, st), [])"
  by (simp add: update_data_def Let_def)

lemma update_data_price_failed:
  "\<not> now e - last_update st < debounce_us \<Longrightarrow> fst (fetch_spy_price (spy_feed e)) = None \<Longrightarrow>
   update_data e st =
     ((False, st), snd (fetch_spy_price (spy_feed e)) @
                   snd (calculate_approx_nav (gspc_feed e) (noise e)))"
  by (auto simp add: update_data_def Let_def split: prod.splits option.splits)

lemma update_data_nav_failed:
  "\<not> now e - last_update st < debounce_us \<Longrightarrow>
   fst (calculate_approx_nav (gspc_feed e) (noise e)) = None \<Longrightarrow>
   update_data e st =
     ((False, st), snd (fetch_spy_price (spy_feed e)) @
                   snd (calculate_approx_nav (gspc_feed e) (noise e)))"
  by (auto simp add: update_data_def Let_def split: prod.splits option.splits)

lemma update_data_appended:
  "\<not> now e - last_update st < debounce_us \<Longrightarrow>
   fst (fetch_spy_price (spy_feed e)) = Some p \<Longrightarrow>
   fst (calculate_approx_nav (gspc_feed e) (noise e)) = Some n \<Longrightarrow>
   update_data e st =
     ((True, \<lparr>data = drop (Suc (length (data st)) - 3600) (data st @ [new_row (now e) p n]),
              last_update = now e\<rparr>),
      snd (fetch_spy_price (spy_feed e)) @ snd (calculate_approx_nav (gspc_feed e) (noise e)))"
  by (auto simp add: update_data_def Let_def iloc_last_def split: prod.splits option.splits)

lemma tick_cases:
  obtains
    (debounced) "now e - last_update st < debounce_us" "update_data e st = ((False, st), [])"
  | (failed) "\<not> now e - last_update st < debounce_us"
      "fst (fetch_spy_price (spy_feed e)) = None \<or>
       fst (calculate_approx_nav (gspc_feed e) (noise e)) = None"
      "fst (update_data e st) = (False, st)"
  | (appended) p n where "\<not> now e - last_update st < debounce_us"
      "fst (fetch_spy_price (spy_feed e)) = Some p"
      "fst (calculate_approx_nav (gspc_feed e) (noise e)) = Some n"
      "fst (update_data e st) =
        (True, \<lparr>data = drop (Suc (length (data st)) - 3600) (data st @ [new_row (now e) p n]),
                last_update = now e\<rparr>)"
proof (cases "now e - last_update st < debounce_us")
  case True
  then show ?thesis using debounced update_data_debounced by blast
next
  case gate: False
  show ?thesis
  proof (cases "fst (fetch_spy_price (spy_feed e))")
    case None
    with gate failed update_data_price_failed [of e st] show ?thesis by simp
  next
    case p: (Some p)
    show ?thesis
    proof (cases "fst (calculate_approx_nav (gspc_feed e) (noise e))")
      case None
      with gate failed update_data_nav_failed [of e st] show ?thesis by simp
    next
      case (Some n)
      with gate p appended update_data_appended [of e st p n] show ?thesis by simp
    qed
  qed
qed


lemma tick_state_debounced:
  "now e - last_update st < debounce_us \<Longrightarrow> tick_state e st = st"
  by (simp add: tick_state_def update_data_debounced)

lemma tick_flag_False_unchanged: "\<not> tick_flag e st \<Longrightarrow> tick_state e st = st"
  by (cases e st rule: tick_cases) (simp_all add: tick_flag_def tick_state_def)

lemma tick_state_length:
  "length (data st) \<le> 3600 \<Longrightarrow> length (data (tick_state e st)) \<le> 3600"
  by (cases e st rule: tick_cases) (simp_all add: tick_state_def)

lemma reachable_length: "reachable st \<Longrightarrow> length (data st) \<le> 3600"
proof (induction rule: reachable.induct)
  case (start t)
  show ?case by (simp add: init_session_def)
next
  case (tick st e)
  from tick.IH show ?case by (rule tick_state_length)
next
  case (refresh st t)
  then show ?case by (simp add: force_refresh_def)
qed

lemma tick_flag_appended:
  assumes "tick_flag e st"
  obtains p n where "\<not> now e - last_update st < debounce_us"
    "fst (fetch_spy_price (spy_feed e)) = Some p"
    "fst (calculate_approx_nav (gspc_feed e) (noise e)) = Some n"
    "tick_state e st =
       \<lparr>data = drop (Suc (length (data st)) - 3600) (data st @ [new_row (now e) p n]),
        last_update = now e\<rparr>"
  using assms by (cases e st rule: tick_cases) (simp_all add: tick_flag_def tick_state_def)

lemma tick_state_derived:
  assumes "\<forall>s \<in> set (data st). derived s"
  shows "\<forall>s \<in> set (data (tick_state e st)). derived s"
proof (cases "tick_flag e st")
  case False
  with assms show ?thesis by (simp add: tick_flag_False_unchanged)
next
  case True
  then obtain p n where
    "data (tick_state e st) = drop (Suc (length (data st)) - 3600) (data st @ [new_row (now e) p n])"
    by (rule tick_flag_appended) simp
  moreover have "derived (new_row (now e) p n)"
    by (simp add: derived_def new_row_def)
  ultimately show ?thesis
    using assms by (auto dest!: in_set_dropD)
qed

lemma reachable_derived: "reachable st \<Longrightarrow> \<forall>s \<in> set (data st). derived s"
proof (induction rule: reachable.induct)
  case (start t)
  show ?case by (simp add: init_session_def)
next
  case (tick st e)
  from tick.IH show ?case by (rule tick_state_derived)
next
  case (refresh st t)
  then show ?case by (simp add: force_refresh_def)
qed

text \<open>
  Claim C1. Every reachable session state holds at most 3600 samples, and a tick keeps that
  bound. Whenever a tick appends, from any prior buffer at all, the new buffer is the prior
  one with the new sample at the end and exactly \<open>length + 1 - 3600\<close> rows dropped from
  the front (none when the result fits), so its length is \<open>min 3600 (length + 1)\<close>.
\<close>

theorem rolling_buffer_bounded:
  "(reachable st \<longrightarrow> length (data st) \<le> 3600) \<and>
   (length (data st) \<le> 3600 \<longrightarrow> length (data (tick_state e st)) \<le> 3600) \<and>
   (tick_flag e st \<longrightarrow>
      (\<exists>p n. fst (fetch_spy_price (spy_feed e)) = Some p \<and>
             fst (calculate_approx_nav (gspc_feed e) (noise e)) = Some n \<and>
             data (tick_state e st) =
               drop (Suc (length (data st)) - 3600) (data st @ [new_row (now e) p n])) \<and>
      length (data (tick_state e st)) = min 3600 (Suc (length (data st))))"
proof (intro conjI impI)
  assume "reachable st"
  then show "length (data st) \<le> 3600" by (rule reachable_length)
next
  assume "length (data st) \<le> 3600"
  then show "length (data (tick_state e st)) \<le> 3600" by (rule tick_state_length)
next
  assume "tick_flag e st"
  then obtain p n where *: "fst (fetch_spy_price (spy_feed e)) = Some p"
    "fst (calculate_approx_nav (gspc_feed e) (noise e)) = Some n"
    "tick_state e st =
       \<lparr>data = drop (Suc (length (data st)) - 3600) (data st @ [new_row (now e) p n]),
        last_update = now e\<rparr>"
    by (rule tick_flag_appended)
  from * show "\<exists>p n. fst (fetch_spy_price (spy_feed e)) = Some p \<and>
             fst (calculate_approx_nav (gspc_feed e) (noise e)) = Some n \<and>
             data (tick_state e st) =
               drop (Suc (length (data st)) - 3600) (data st @ [new_row (now e) p n])"
    by simp
  from * show "length (data (tick_state e st)) = min 3600 (Suc (length (data st)))"
    by simp
qed

lemma full_buffer_tick:
  "update_data \<lparr>now = 1000000, spy_feed = Frame [501], gspc_feed = Frame [5000], noise = 0\<rparr>
     \<lparr>data = replicate 3600 (new_row 0 500 499), last_update = 0\<rparr> =
   ((True, \<lparr>data = replicate 3599 (new_row 0 500 499) @ [new_row 1000000 501 500],
            last_update = 1000000\<rparr>), [Download ''SPY'', Download ''^GSPC''])"
proof -
  have "drop (Suc 0) (replicate 3600 x) = replicate 3599 x" for x :: sample
    by simp
  then show ?thesis
    by (simp add: update_data_def Let_def debounce_us_def fetch_spy_price_def
        calculate_approx_nav_def nav_scaling_factor_def iloc_last_def)
qed


text \<open>An append to a full buffer of 3600 samples, and the state at session start.\<close>

theorem rolling_buffer_bounded_witness:
  "length (data \<lparr>data = replicate 3600 (new_row 0 500 499), last_update = 0\<rparr>) \<le> 3600 \<and>
   tick_flag \<lparr>now = 1000000, spy_feed = Frame [501], gspc_feed = Frame [5000], noise = 0\<rparr>
     \<lparr>data = replicate 3600 (new_row 0 500 499), last_update = 0\<rparr> \<and>
   length (data (tick_state
     \<lparr>now = 1000000, spy_feed = Frame [501], gspc_feed = Frame [5000], noise = 0\<rparr>
     \<lparr>data = replicate 3600 (new_row 0 500 499), last_update = 0\<rparr>)) = 3600 \<and>
   reachable (init_session 0) \<and> length (data (init_session 0)) \<le> 3600"
proof -
  let ?e = "\<lparr>now = 1000000, spy_feed = Frame [501], gspc_feed = Frame [5000], noise = 0\<rparr>"
  let ?st = "\<lparr>data = replicate 3600 (new_row 0 500 499), last_update = 0\<rparr>"
  have flag: "tick_flag ?e ?st"
    by (simp add: tick_flag_def full_buffer_tick)
  with rolling_buffer_bounded [of ?st ?e]
  have "length (data (tick_state ?e ?st)) = min 3600 (Suc (length (data ?st)))"
    by blast
  then have len: "length (data (tick_state ?e ?st)) = 3600"
    by simp
  have start: "reachable (init_session 0)"
    by (rule reachable.start)
  with rolling_buffer_bounded [of "init_session 0" ?e]
  have "length (data (init_session 0)) \<le> 3600"
    by blast
  with flag len start show ?thesis
    by simp
qed

text \<open>
  Claim C2. In every reachable session state each sample of the buffer has
  \<open>difference = spy_price - nav_value\<close>; the sample a tick appends is the last of the new
  buffer, its price and NAV are the two fetched values and its difference is their
  difference.
\<close>

theorem difference_derived:
  "(reachable st \<longrightarrow> (\<forall>s \<in> set (data st). difference s = spy_price s - nav_value s)) \<and>
   (tick_flag e st \<longrightarrow>
      data (tick_state e st) \<noteq> [] \<and>
      difference (last (data (tick_state e st))) =
        spy_price (last (data (tick_state e st))) - nav_value (last (data (tick_state e st))) \<and>
      fst (fetch_spy_price (spy_feed e)) = Some (spy_price (last (data (tick_state e st)))) \<and>
      fst (calculate_approx_nav (gspc_feed e) (noise e)) =
        Some (nav_value (last (data (tick_state e st)))))"
proof (intro conjI impI)
  assume "reachable st"
  then have "\<forall>s \<in> set (data st). derived s" by (rule reachable_derived)
  then show "\<forall>s \<in> set (data st). difference s = spy_price s - nav_value s"
    by (simp add: derived_def)
next
  assume "tick_flag e st"
  then obtain p n where *: "fst (fetch_spy_price (spy_feed e)) = Some p"
    "fst (calculate_approx_nav (gspc_feed e) (noise e)) = Some n"
    "tick_state e st =
       \<lparr>data = drop (Suc (length (data st)) - 3600) (data st @ [new_row (now e) p n]),
        last_update = now e\<rparr>"
    by (rule tick_flag_appended)
  from *(3) have ne: "data (tick_state e st) \<noteq> []"
    by simp
  from *(3) have l: "last (data (tick_state e st)) = new_row (now e) p n"
    by simp
  from ne show "data (tick_state e st) \<noteq> []" .
  from l show "difference (last (data (tick_state e st))) =
        spy_price (last (data (tick_state e st))) - nav_value (last (data (tick_state e st)))"
    by (simp add: new_row_def)
  from l * show "fst (fetch_spy_price (spy_feed e)) = Some (spy_price (last (data (tick_state e st))))"
    by (simp add: new_row_def)
  from l * show "fst (calculate_approx_nav (gspc_feed e) (noise e)) =
        Some (nav_value (last (data (tick_state e st))))"
    by (simp add: new_row_def)
qed

lemma first_tick:
  "update_data \<lparr>now = 0, spy_feed = Frame [500, 501], gspc_feed = Frame [5000], noise = 0\<rparr>
     (init_session 0) =
   ((True, \<lparr>data = [new_row 0 501 500], last_update = 0\<rparr>),
    [Download ''SPY'', Download ''^GSPC''])"
  by (simp add: update_data_def Let_def debounce_us_def fetch_spy_price_def two_minutes_def
      calculate_approx_nav_def nav_scaling_factor_def iloc_last_def init_session_def)

text \<open>The first tick of a session, with both downloads returning rows.\<close>

theorem difference_derived_witness:
  "reachable (tick_state
      \<lparr>now = 0, spy_feed = Frame [500, 501], gspc_feed = Frame [5000], noise = 0\<rparr>
      (init_session 0)) \<and>
   tick_flag \<lparr>now = 0, spy_feed = Frame [500, 501], gspc_feed = Frame [5000], noise = 0\<rparr>
      (init_session 0) \<and>
   data (tick_state
      \<lparr>now = 0, spy_feed = Frame [500, 501], gspc_feed = Frame [5000], noise = 0\<rparr>
      (init_session 0)) =
     [\<lparr>timestamp = 0, spy_price = 501, nav_value = 500, difference = 1\<rparr>] \<and>
   difference (hd (data (tick_state
      \<lparr>now = 0, spy_feed = Frame [500, 501], gspc_feed = Frame [5000], noise = 0\<rparr>
      (init_session 0)))) =
     spy_price (hd (data (tick_state
      \<lparr>now = 0, spy_feed = Frame [500, 501], gspc_feed = Frame [5000], noise = 0\<rparr>
      (init_session 0)))) -
     nav_value (hd (data (tick_state
      \<lparr>now = 0, spy_feed = Frame [500, 501], gspc_feed = Frame [5000], noise = 0\<rparr>
      (init_session 0))))"
proof -
  let ?e = "\<lparr>now = 0, spy_feed = Frame [500, 501], gspc_feed = Frame [5000], noise = 0\<rparr>"
  have r: "reachable (tick_state ?e (init_session 0))"
    by (intro reachable.tick reachable.start)
  have flag: "tick_flag ?e (init_session 0)"
    by (simp add: tick_flag_def first_tick)
  have d: "data (tick_state ?e (init_session 0)) =
      [\<lparr>timestamp = 0, spy_price = 501, nav_value = 500, difference = 1\<rparr>]"
    by (simp add: tick_state_def first_tick new_row_def)
  from r difference_derived [of "tick_state ?e (init_session 0)" ?e]
  have "\<forall>s \<in> set (data (tick_state ?e (init_session 0))).
          difference s = spy_price s - nav_value s"
    by blast
  with d have "difference (hd (data (tick_state ?e (init_session 0)))) =
      spy_price (hd (data (tick_state ?e (init_session 0)))) -
      nav_value (hd (data (tick_state ?e (init_session 0))))"
    by simp
  with r flag d show ?thesis
    by blast
qed

text \<open>
  Claim C3. When the clock reads exactly one second after \<open>last_update\<close> and both the
  price fetch and the NAV approximation return a value, the tick returns \<^verbatim>\<open>True\<close>, sets
  \<open>last_update\<close> to the clock reading, and the new buffer is the prior one with exactly one
  new sample at the end (after the eviction of C1; with room left, it is longer by one).
\<close>

theorem tick_after_one_second:
  assumes "now e = last_update st + 1000000"
    and "fst (fetch_spy_price (spy_feed e)) = Some p"
    and "fst (calculate_approx_nav (gspc_feed e) (noise e)) = Some n"
  shows "tick_flag e st \<and>
         last_update (tick_state e st) = now e \<and>
         data (tick_state e st) =
           drop (Suc (length (data st)) - 3600) (data st @ [new_row (now e) p n]) \<and>
         (length (data st) < 3600 \<longrightarrow>
            data (tick_state e st) = data st @ [new_row (now e) p n])"
proof -
  from assms(1) have "\<not> now e - last_update st < debounce_us"
    by (simp add: debounce_us_def)
  from update_data_appended [OF this assms(2) assms(3)] show ?thesis
    by (simp add: tick_flag_def tick_state_def)
qed

theorem tick_after_one_second_witness:
  "now \<lparr>now = 1000000, spy_feed = Frame [501], gspc_feed = Frame [5000], noise = 0\<rparr> =
     last_update \<lparr>data = [new_row 0 500 499], last_update = 0\<rparr> + 1000000 \<and>
   fst (fetch_spy_price (Frame [501])) = Some 501 \<and>
   fst (calculate_approx_nav (Frame [5000]) 0) = Some 500 \<and>
   tick_flag \<lparr>now = 1000000, spy_feed = Frame [501], gspc_feed = Frame [5000], noise = 0\<rparr>
     \<lparr>data = [new_row 0 500 499], last_update = 0\<rparr> \<and>
   tick_state \<lparr>now = 1000000, spy_feed = Frame [501], gspc_feed = Frame [5000], noise = 0\<rparr>
     \<lparr>data = [new_row 0 500 499], last_update = 0\<rparr> =
     \<lparr>data = [new_row 0 500 499, new_row 1000000 501 500], last_update = 1000000\<rparr>"
proof -
  let ?e = "\<lparr>now = 1000000, spy_feed = Frame [501], gspc_feed = Frame [5000], noise = 0\<rparr>"
  let ?st = "\<lparr>data = [new_row 0 500 499], last_update = 0\<rparr>"
  have t: "now ?e = last_update ?st + 1000000"
    by simp
  have p: "fst (fetch_spy_price (spy_feed ?e)) = Some 501"
    by (simp add: fetch_spy_price_def)
  have n: "fst (calculate_approx_nav (gspc_feed ?e) (noise ?e)) = Some 500"
    by (simp add: calculate_approx_nav_def nav_scaling_factor_def)
  from tick_after_one_second [OF t p n] have
    "tick_flag ?e ?st" "last_update (tick_state ?e ?st) = 1000000"
    "data (tick_state ?e ?st) = [new_row 0 500 499, new_row 1000000 501 500]"
    by simp_all
  with t p n show ?thesis
    by simp
qed

text \<open>
  Claim C4. Half a second after \<open>last_update\<close> a tick returns \<^verbatim>\<open>False\<close>, leaves the
  session state as it was and has no effect at all: no download is made and no message is
  shown, whatever the downloads would have returned.
\<close>

theorem tick_after_half_second:
  "update_data (e\<lparr>now := last_update st + 500000\<rparr>) st = ((False, st), [])"
  by (simp add: update_data_debounced debounce_us_def)

text \<open>
  Claim C5. When exactly one of the price fetch and the NAV approximation returns
  \<^verbatim>\<open>None\<close>, the tick returns \<^verbatim>\<open>False\<close> and the session state, so also the buffer, is
  unchanged.
\<close>

theorem one_fetch_failed:
  assumes "(fst (fetch_spy_price (spy_feed e)) = None) \<noteq>
           (fst (calculate_approx_nav (gspc_feed e) (noise e)) = None)"
  shows "\<not> tick_flag e st \<and> tick_state e st = st \<and> data (tick_state e st) = data st"
proof -
  from assms have "fst (fetch_spy_price (spy_feed e)) = None \<or>
      fst (calculate_approx_nav (gspc_feed e) (noise e)) = None"
    by auto
  then have "\<not> tick_flag e st"
    by (cases e st rule: tick_cases) (auto simp add: tick_flag_def)
  then show ?thesis
    by (simp add: tick_flag_False_unchanged)
qed

theorem one_fetch_failed_witness:
  "(fst (fetch_spy_price (Frame [])) = None) \<noteq>
     (fst (calculate_approx_nav (Frame [5000]) 0) = None) \<and>
   (fst (fetch_spy_price (Frame [501])) = None) \<noteq>
     (fst (calculate_approx_nav (Raised ''timeout'') 0) = None) \<and>
   \<not> tick_flag \<lparr>now = 1000000, spy_feed = Frame [], gspc_feed = Frame [5000], noise = 0\<rparr>
       \<lparr>data = [new_row 0 500 499], last_update = 0\<rparr> \<and>
   data (tick_state \<lparr>now = 1000000, spy_feed = Frame [], gspc_feed = Frame [5000], noise = 0\<rparr>
       \<lparr>data = [new_row 0 500 499], last_update = 0\<rparr>) = [new_row 0 500 499] \<and>
   \<not> tick_flag
       \<lparr>now = 1000000, spy_feed = Frame [501], gspc_feed = Raised ''timeout'', noise = 0\<rparr>
       \<lparr>data = [new_row 0 500 499], last_update = 0\<rparr> \<and>
   data (tick_state
       \<lparr>now = 1000000, spy_feed = Frame [501], gspc_feed = Raised ''timeout'', noise = 0\<rparr>
       \<lparr>data = [new_row 0 500 499], last_update = 0\<rparr>) = [new_row 0 500 499]"
proof -
  let ?e1 = "\<lparr>now = 1000000, spy_feed = Frame [], gspc_feed = Frame [5000], noise = 0\<rparr>"
  let ?e2 = "\<lparr>now = 1000000, spy_feed = Frame [501], gspc_feed = Raised ''timeout'', noise = 0\<rparr>"
  let ?st = "\<lparr>data = [new_row 0 500 499], last_update = 0\<rparr>"
  have h1: "(fst (fetch_spy_price (spy_feed ?e1)) = None) \<noteq>
      (fst (calculate_approx_nav (gspc_feed ?e1) (noise ?e1)) = None)"
    by (simp add: fetch_spy_price_def calculate_approx_nav_def)
  have h2: "(fst (fetch_spy_price (spy_feed ?e2)) = None) \<noteq>
      (fst (calculate_approx_nav (gspc_feed ?e2) (noise ?e2)) = None)"
    by (simp add: fetch_spy_price_def calculate_approx_nav_def)
  from one_fetch_failed [OF h1, of ?st] one_fetch_failed [OF h2, of ?st] h1 h2
  show ?thesis
    by simp
qed

text \<open>
  Claim C6. When a tick passes the debounce and the price fetch returns \<^verbatim>\<open>None\<close>, the tick
  returns \<^verbatim>\<open>False\<close> and leaves the session state unchanged (no sample, whole or partial,
  is recorded); the price fetch has shown one \<^verbatim>\<open>st.error\<close> message to the user; and the
  tick has called the SPY download exactly once. The NAV approximation still runs after
  the failed fetch; its effects follow those of the fetch.
\<close>

theorem price_fetch_failed:
  assumes "\<not> now e - last_update st < debounce_us"
    and "fst (fetch_spy_price (spy_feed e)) = None"
  shows "\<not> tick_flag e st \<and> tick_state e st = st \<and>
         (\<exists>msg. snd (fetch_spy_price (spy_feed e)) = [Download ''SPY'', St_error msg]) \<and>
         tick_events e st =
           snd (fetch_spy_price (spy_feed e)) @
           snd (calculate_approx_nav (gspc_feed e) (noise e)) \<and>
         length (filter (\<lambda>ev. ev = Download ''SPY'') (tick_events e st)) = 1 \<and>
         length (filter (\<lambda>ev. \<exists>msg. ev = St_error msg) (snd (fetch_spy_price (spy_feed e)))) = 1"
proof -
  from assms(2) have msg: "\<exists>msg. snd (fetch_spy_price (spy_feed e)) = [Download ''SPY'', St_error msg]"
    by (auto simp add: fetch_spy_price_def split: download.splits if_splits)
  have nav: "Download ''SPY'' \<notin> set (snd (calculate_approx_nav (gspc_feed e) (noise e)))"
    by (auto simp add: calculate_approx_nav_def Let_def split: download.splits if_splits)
  then have "filter (\<lambda>ev. ev = Download ''SPY'') (snd (calculate_approx_nav (gspc_feed e) (noise e))) = []"
    by (auto simp add: filter_empty_conv)
  with msg update_data_price_failed [OF assms] show ?thesis
    by (auto simp add: tick_flag_def tick_state_def tick_events_def)
qed

theorem price_fetch_failed_witness:
  "\<not> now \<lparr>now = 1000000, spy_feed = Raised ''timeout'', gspc_feed = Frame [5000], noise = 0\<rparr>
       - last_update \<lparr>data = [new_row 0 500 499], last_update = 0\<rparr> < debounce_us \<and>
   fst (fetch_spy_price (Raised ''timeout'')) = None \<and>
   update_data \<lparr>now = 1000000, spy_feed = Raised ''timeout'', gspc_feed = Frame [5000], noise = 0\<rparr>
       \<lparr>data = [new_row 0 500 499], last_update = 0\<rparr> =
     ((False, \<lparr>data = [new_row 0 500 499], last_update = 0\<rparr>),
      [Download ''SPY'', St_error ''Error fetching SPY price: timeout'', Download ''^GSPC''])"
proof -
  let ?e = "\<lparr>now = 1000000, spy_feed = Raised ''timeout'', gspc_feed = Frame [5000], noise = 0\<rparr>"
  let ?st = "\<lparr>data = [new_row 0 500 499], last_update = 0\<rparr>"
  have g: "\<not> now ?e - last_update ?st < debounce_us"
    by (simp add: debounce_us_def)
  have f: "fst (fetch_spy_price (spy_feed ?e)) = None"
    by (simp add: fetch_spy_price_def)
  from price_fetch_failed [OF g f] have "\<not> tick_flag ?e ?st" "tick_state ?e ?st = ?st"
    "tick_events ?e ?st =
       snd (fetch_spy_price (spy_feed ?e)) @ snd (calculate_approx_nav (gspc_feed ?e) (noise ?e))"
    by blast+
  then have "update_data ?e ?st =
     ((False, ?st), snd (fetch_spy_price (spy_feed ?e)) @
                    snd (calculate_approx_nav (gspc_feed ?e) (noise ?e)))"
    by (simp add: tick_flag_def tick_state_def tick_events_def prod_eq_iff)
  with g f show ?thesis
    by (simp add: fetch_spy_price_def calculate_approx_nav_def)
qed

text \<open>
  Claim C8. On a frame with rows the NAV Approximator returns the last close times the
  scaling factor times \<open>1 + noise\<close>, the scaling factor is \<open>0.1\<close>, and for a last close of
  5000 and noise 0 the result is 500.
\<close>

theorem approx_nav_value:
  "fst (calculate_approx_nav (Frame (closes @ [index_value])) nz) =
     Some (index_value * nav_scaling_factor * (1 + nz)) \<and>
   nav_scaling_factor = 1 / 10 \<and>
   fst (calculate_approx_nav (Frame (closes @ [5000])) 0) = Some 500"
  by (simp add: calculate_approx_nav_def nav_scaling_factor_def)

text \<open>
  Claim C9. A tick that returns \<^verbatim>\<open>False\<close> leaves the whole session state, buffer and
  \<open>last_update\<close>, as it was. So after a tick that passed the debounce and failed on a fetch,
  any later tick (one whose clock reading is not earlier) passes the debounce again: it
  calls the SPY download, and it appends when both of its fetches return a value.
\<close>

theorem failed_tick_keeps_last_update:
  "(\<not> tick_flag e st \<longrightarrow>
      tick_state e st = st \<and> last_update (tick_state e st) = last_update st \<and>
      data (tick_state e st) = data st) \<and>
   (\<not> now e - last_update st < debounce_us \<and> \<not> tick_flag e st \<and> now e \<le> now e' \<longrightarrow>
      Download ''SPY'' \<in> set (tick_events e' (tick_state e st)) \<and>
      (fst (fetch_spy_price (spy_feed e')) \<noteq> None \<and>
       fst (calculate_approx_nav (gspc_feed e') (noise e')) \<noteq> None \<longrightarrow>
         tick_flag e' (tick_state e st)))"
proof (intro conjI impI)
  assume "\<not> tick_flag e st"
  then show "tick_state e st = st" "last_update (tick_state e st) = last_update st"
    "data (tick_state e st) = data st"
    by (simp_all add: tick_flag_False_unchanged)
next
  assume a: "\<not> now e - last_update st < debounce_us \<and> \<not> tick_flag e st \<and> now e \<le> now e'"
  then have same: "tick_state e st = st"
    by (simp add: tick_flag_False_unchanged)
  from a have gate: "\<not> now e' - last_update st < debounce_us"
    by simp
  have spy: "Download ''SPY'' \<in> set (snd (fetch_spy_price (spy_feed e')))"
    by (auto simp add: fetch_spy_price_def split: download.splits)
  from gate spy show "Download ''SPY'' \<in> set (tick_events e' (tick_state e st))"
    unfolding same by (cases e' st rule: tick_cases)
      (auto simp add: tick_events_def update_data_def Let_def split: prod.splits option.splits)
  assume "fst (fetch_spy_price (spy_feed e')) \<noteq> None \<and>
       fst (calculate_approx_nav (gspc_feed e') (noise e')) \<noteq> None"
  with gate show "tick_flag e' (tick_state e st)"
    unfolding same by (cases e' st rule: tick_cases) (auto simp add: tick_flag_def)
qed

text \<open>A tick that fails on the price fetch, and the next tick at the same clock reading.\<close>

theorem failed_tick_keeps_last_update_witness:
  "\<not> now \<lparr>now = 1000000, spy_feed = Raised ''timeout'', gspc_feed = Frame [5000], noise = 0\<rparr>
       - last_update \<lparr>data = [new_row 0 500 499], last_update = 0\<rparr> < debounce_us \<and>
   \<not> tick_flag \<lparr>now = 1000000, spy_feed = Raised ''timeout'', gspc_feed = Frame [5000], noise = 0\<rparr>
       \<lparr>data = [new_row 0 500 499], last_update = 0\<rparr> \<and>
   last_update (tick_state
       \<lparr>now = 1000000, spy_feed = Raised ''timeout'', gspc_feed = Frame [5000], noise = 0\<rparr>
       \<lparr>data = [new_row 0 500 499], last_update = 0\<rparr>) = 0 \<and>
   tick_flag \<lparr>now = 1000000, spy_feed = Frame [501], gspc_feed = Frame [5000], noise = 0\<rparr>
     (tick_state
       \<lparr>now = 1000000, spy_feed = Raised ''timeout'', gspc_feed = Frame [5000], noise = 0\<rparr>
       \<lparr>data = [new_row 0 500 499], last_update = 0\<rparr>)"
proof -
  let ?e = "\<lparr>now = 1000000, spy_feed = Raised ''timeout'', gspc_feed = Frame [5000], noise = 0\<rparr>"
  let ?e' = "\<lparr>now = 1000000, spy_feed = Frame [501], gspc_feed = Frame [5000], noise = 0\<rparr>"
  let ?st = "\<lparr>data = [new_row 0 500 499], last_update = 0\<rparr>"
  have g: "\<not> now ?e - last_update ?st < debounce_us"
    by (simp add: debounce_us_def)
  have f: "\<not> tick_flag ?e ?st"
    by (simp add: tick_flag_def update_data_def Let_def debounce_us_def fetch_spy_price_def
        calculate_approx_nav_def)
  have le: "now ?e \<le> now ?e'"
    by simp
  have ok: "fst (fetch_spy_price (spy_feed ?e')) \<noteq> None \<and>
      fst (calculate_approx_nav (gspc_feed ?e') (noise ?e')) \<noteq> None"
    by (simp add: fetch_spy_price_def calculate_approx_nav_def)
  from failed_tick_keeps_last_update [of ?e ?st ?e'] g f le ok
  have "last_update (tick_state ?e ?st) = last_update ?st" "tick_flag ?e' (tick_state ?e ?st)"
    by blast+
  with g f show ?thesis
    by simp
qed

section \<open>Properties of the recent-history table\<close>

lemma length_shift_m1: "length (shift_m1 xs) = length xs"
  by (cases xs) (simp_all add: shift_m1_def)

lemma shift_m1_nth: "Suc i < length xs \<Longrightarrow> shift_m1 xs ! i = Some (xs ! Suc i)"
  by (cases xs) (simp_all add: shift_m1_def nth_append)

lemma shift_m1_last: "xs \<noteq> [] \<Longrightarrow> shift_m1 xs ! (length xs - 1) = None"
  by (cases xs) (simp_all add: shift_m1_def nth_append)

lemma length_table_data: "length (table_data buf) = length (take 15 (sort_values_desc buf))"
  by (simp add: table_data_def Let_def length_shift_m1)

lemma table_data_nth:
  assumes "rows = take 15 (sort_values_desc buf)" and "i < length rows"
  shows "table_data buf ! i = mk_table_row (rows ! i) (shift_m1 (map spy_price rows) ! i)"
  using assms(2) unfolding table_data_def Let_def assms(1) [symmetric]
  by (simp add: length_shift_m1)

lemma fmt_one_fifth: "fmt_f 4 (1 / 5) = ''0.2000''"
  by (simp add: fmt_f_def round_half_even_def str_nat.simps digit_char_def zfill_def)

lemma change_pct_500_501:
  "spy_price s = 501 \<Longrightarrow> Change_pct (mk_display_row (mk_table_row s (Some 500))) = ''0.2000%''"
  by (simp add: mk_display_row_def mk_table_row_def Let_def fl_div_def price_change_pct_fmt_def
      fmt_one_fifth)

lemma change_pct_no_prev: "Change_pct (mk_display_row (mk_table_row s None)) = []"
  by (simp add: mk_display_row_def mk_table_row_def Let_def fl_div_def price_change_pct_fmt_def)

lemma prev_spy_price_mk: "prev_spy_price (mk_table_row s prev) = prev"
  by (simp add: mk_table_row_def Let_def)

lemma spy_price_mk: "spy_price (mk_table_row s prev) = spy_price s"
  by (simp add: mk_table_row_def Let_def)

lemma two_rows_sorted:
  "take 15 (sort_values_desc [new_row 0 500 499, new_row 1000000 501 500]) =
     [new_row 1000000 501 500, new_row 0 500 499]"
  by (simp add: sort_values_desc_def new_row_def)

text \<open>
  The format of line 266 is \<^verbatim>\<open>.4f\<close>, which writes no plus sign: with the two samples
  below, the newest row has price 501 and previous price 500, and its Change % cell is
  \<^verbatim>\<open>0.2000%\<close>, not \<^verbatim>\<open>+0.2000%\<close>.
\<close>

theorem change_pct_plus_sign_counterexample:
  "prev_spy_price (table_data [new_row 0 500 499, new_row 1000000 501 500] ! 0) = Some 500 \<and>
   spy_price (table_data [new_row 0 500 499, new_row 1000000 501 500] ! 0) = 501 \<and>
   Change_pct (mk_display_row (table_data [new_row 0 500 499, new_row 1000000 501 500] ! 0))
     = ''0.2000%'' \<and>
   Change_pct (mk_display_row (table_data [new_row 0 500 499, new_row 1000000 501 500] ! 0))
     \<noteq> ''+0.2000%''"
proof -
  have row: "table_data [new_row 0 500 499, new_row 1000000 501 500] ! 0 =
      mk_table_row (new_row 1000000 501 500) (Some 500)"
    using table_data_nth [OF two_rows_sorted [symmetric], of 0] by (simp add: shift_m1_def new_row_def)
  have "spy_price (new_row 1000000 501 500) = 501"
    by (simp add: new_row_def)
  then have "Change_pct (mk_display_row (mk_table_row (new_row 1000000 501 500) (Some 500)))
      = ''0.2000%''"
    by (rule change_pct_500_501)
  with row show ?thesis
    by (simp add: prev_spy_price_mk spy_price_mk new_row_def)
qed

text \<open>
  Claim C7, as amended. Let \<open>rows\<close> be the displayed slice: the at most 15 newest samples,
  newest first. The table has one row for each, the previous price of a row is the price
  of the next row of the slice, and a row with price 501 whose next row has price 500 shows
  \<^verbatim>\<open>0.2000%\<close> (without a plus sign) as Change %. The last row of the slice has no previous
  price and an empty Change % cell, also when the buffer holds older samples: the lag is
  taken within the slice.
\<close>

theorem change_pct_in_slice:
  assumes "rows = take 15 (sort_values_desc buf)"
  shows "length (table_data buf) = length rows \<and>
    (\<forall>i. Suc i < length rows \<longrightarrow>
       spy_price (table_data buf ! i) = spy_price (rows ! i) \<and>
       prev_spy_price (table_data buf ! i) = Some (spy_price (rows ! Suc i))) \<and>
    (\<forall>i. Suc i < length rows \<and> spy_price (rows ! i) = 501 \<and> spy_price (rows ! Suc i) = 500 \<longrightarrow>
       Change_pct (mk_display_row (table_data buf ! i)) = ''0.2000%'') \<and>
    (rows \<noteq> [] \<longrightarrow>
       prev_spy_price (table_data buf ! (length rows - 1)) = None \<and>
       Change_pct (mk_display_row (table_data buf ! (length rows - 1))) = [])"
proof (intro conjI allI impI)
  show "length (table_data buf) = length rows"
    by (simp add: assms length_table_data)
next
  fix i assume i: "Suc i < length rows"
  then have "table_data buf ! i = mk_table_row (rows ! i) (Some (spy_price (rows ! Suc i)))"
    using table_data_nth [OF assms, of i] shift_m1_nth [of i "map spy_price rows"] by simp
  then show "spy_price (table_data buf ! i) = spy_price (rows ! i)"
    "prev_spy_price (table_data buf ! i) = Some (spy_price (rows ! Suc i))"
    by (simp_all add: prev_spy_price_mk spy_price_mk)
next
  fix i
  assume a: "Suc i < length rows \<and> spy_price (rows ! i) = 501 \<and> spy_price (rows ! Suc i) = 500"
  then have "table_data buf ! i = mk_table_row (rows ! i) (Some 500)"
    using table_data_nth [OF assms, of i] shift_m1_nth [of i "map spy_price rows"] by simp
  with a show "Change_pct (mk_display_row (table_data buf ! i)) = ''0.2000%''"
    by (simp add: change_pct_500_501)
next
  assume ne: "rows \<noteq> []"
  then have "table_data buf ! (length rows - 1) = mk_table_row (rows ! (length rows - 1)) None"
    using table_data_nth [OF assms, of "length rows - 1"] shift_m1_last [of "map spy_price rows"]
    by simp
  then show "prev_spy_price (table_data buf ! (length rows - 1)) = None"
    "Change_pct (mk_display_row (table_data buf ! (length rows - 1))) = []"
    by (simp_all add: prev_spy_price_mk change_pct_no_prev)
qed

lemma sixteen_rows_sorted:
  "take 15 (sort_values_desc
     (map (\<lambda>k. new_row (int k * 1000000) (if k = 15 then 501 else 500) 500) [0..<16])) =
   map (\<lambda>k. new_row (int k * 1000000) (if k = 15 then 501 else 500) 500) (rev [1..<16])"
  by (simp add: sort_values_desc_def new_row_def upt_rec)


text \<open>
  A buffer of 16 samples: the table has 15 rows, the newest shows \<^verbatim>\<open>0.2000%\<close>, and the
  fifteenth has no previous price although the buffer holds an older sample.
\<close>

theorem change_pct_in_slice_witness:
  "map (\<lambda>k. new_row (int k * 1000000) (if k = 15 then 501 else 500) 500) (rev [1..<16]) =
     take 15 (sort_values_desc
       (map (\<lambda>k. new_row (int k * 1000000) (if k = 15 then 501 else 500) 500) [0..<16])) \<and>
   length (map (\<lambda>k. new_row (int k * 1000000) (if k = 15 then 501 else 500) 500) [0..<16]) = 16 \<and>
   length (table_data
     (map (\<lambda>k. new_row (int k * 1000000) (if k = 15 then 501 else 500) 500) [0..<16])) = 15 \<and>
   Change_pct (mk_display_row (table_data
     (map (\<lambda>k. new_row (int k * 1000000) (if k = 15 then 501 else 500) 500) [0..<16]) ! 0))
     = ''0.2000%'' \<and>
   prev_spy_price (table_data
     (map (\<lambda>k. new_row (int k * 1000000) (if k = 15 then 501 else 500) 500) [0..<16]) ! 14)
     = None \<and>
   Change_pct (mk_display_row (table_data
     (map (\<lambda>k. new_row (int k * 1000000) (if k = 15 then 501 else 500) 500) [0..<16]) ! 14))
     = []"
proof -
  let ?f = "\<lambda>k. new_row (int k * 1000000) (if k = 15 then 501 else 500) 500"
  let ?buf = "map ?f [0..<16]"
  let ?rows = "map ?f (rev [1..<16])"
  have rows: "?rows = take 15 (sort_values_desc ?buf)"
    by (rule sixteen_rows_sorted [symmetric])
  have len: "length ?rows = 15"
    by simp
  have p0: "spy_price (?rows ! 0) = 501"
    by (simp add: rev_nth new_row_def)
  have p1: "spy_price (?rows ! Suc 0) = 500"
    by (simp add: rev_nth new_row_def)
  note slice = change_pct_in_slice [OF rows]
  from slice len have l: "length (table_data ?buf) = 15"
    by simp
  from slice len p0 p1 have c: "Change_pct (mk_display_row (table_data ?buf ! 0)) = ''0.2000%''"
    by simp
  from slice len have
    "prev_spy_price (table_data ?buf ! (length ?rows - 1)) = None \<and>
     Change_pct (mk_display_row (table_data ?buf ! (length ?rows - 1))) = []"
    by fastforce
  with len have e: "prev_spy_price (table_data ?buf ! 14) = None"
    "Change_pct (mk_display_row (table_data ?buf ! 14)) = []"
    by simp_all
  from rows l c e show ?thesis
    by simp
qed

section \<open>Properties of a render\<close>

lemma metrics_no_table: "Dataframe rows styles \<notin> set (metrics s)"
  by (simp add: metrics_def)

lemma table_in_render:
  "Dataframe rows styles \<in> set (render st) \<longleftrightarrow>
   Dataframe rows styles \<in> set (table_widgets (data st)) \<and> data st \<noteq> []"
  by (simp add: render_def metrics_no_table chart_def)

text \<open>
  Claim C10. A render shows a table exactly when the buffer holds at least two samples.
  With exactly one sample it shows the three headline metrics, the chart, the caption and
  the raw-data view, and no table.
\<close>

theorem table_needs_two_samples:
  "((\<exists>rows styles. Dataframe rows styles \<in> set (render st)) \<longleftrightarrow> 2 \<le> length (data st)) \<and>
   render (st\<lparr>data := [s]\<rparr>) =
     metrics s @
     [chart [s],
      Subheader ''Real-Time Price Tracking'',
      Markdown ''Track the most recent price changes and NAV differences in real-time:'',
      Caption (last_update st),
      Raw_data_expander [s]]"
proof
  show "(\<exists>rows styles. Dataframe rows styles \<in> set (render st)) \<longleftrightarrow> 2 \<le> length (data st)"
    by (auto simp add: table_in_render table_widgets_def Let_def)
  show "render (st\<lparr>data := [s]\<rparr>) =
     metrics s @
     [chart [s],
      Subheader ''Real-Time Price Tracking'',
      Markdown ''Track the most recent price changes and NAV differences in real-time:'',
      Caption (last_update st),
      Raw_data_expander [s]]"
    by (simp add: render_def table_widgets_def)
qed

end
